theory Spec2Isabelle
  imports Main "HOL-Library.Word"
begin

section \<open>Python values, bytes and exceptions\<close>

text \<open>
  The repository is Python. Its integers are unbounded (\<open>int\<close>), a \<open>bytes\<close> object is a
  list of 8-bit words, and an exception that leaves a function is the \<open>Inl\<close> side of
  the function's result.
\<close>

datatype py_error = IndexError | KeyError | TypeError | ValueError | NotImplementedError

type_synonym byte = "8 word"
type_synonym bytes = "byte list"

text \<open>
  The values a schedule is made of, as \<open>json.loads\<close> builds them: \<open>None\<close>, booleans,
  integers, strings, lists and dictionaries with string keys (in insertion order, no
  key twice). A Python \<open>str\<close> is modelled by \<open>string\<close>, one \<open>char\<close> per code point,
  so code points above 255 are left out; floats are left out as well.
\<close>

datatype py =
    PNone
  | PBool bool
  | PInt int
  | PStr string
  | PList "py list"
  | PDict "(string \<times> py) list"

text \<open>\<open>bytes([n])\<close>: one byte, or \<open>ValueError\<close> when \<open>n\<close> is not in \<open>range(0, 256)\<close>.\<close>

definition py_bytes1 :: "int \<Rightarrow> py_error + bytes" where
  "py_bytes1 n = (if 0 \<le> n \<and> n < 256 then Inr [word_of_int n] else Inl ValueError)"

text \<open>\<open>obj[key]\<close> for a string key: only a dictionary can be subscripted by a string.\<close>

fun py_getitem :: "py \<Rightarrow> string \<Rightarrow> py_error + py" where
  "py_getitem (PDict d) k = (case map_of d k of None \<Rightarrow> Inl KeyError | Some v \<Rightarrow> Inr v)"
| "py_getitem PNone k = Inl TypeError"
| "py_getitem (PBool b) k = Inl TypeError"
| "py_getitem (PInt n) k = Inl TypeError"
| "py_getitem (PStr s) k = Inl TypeError"
| "py_getitem (PList xs) k = Inl TypeError"

section \<open>battery_engine.py\<close>

definition classify_battery :: "int \<Rightarrow> string" where
  "classify_battery percent =
     (if percent \<le> 3 then ''emergency''
      else if percent \<le> 10 then ''critical''
      else if percent \<le> 20 then ''low''
      else ''normal'')"

section \<open>state_machine.py\<close>

definition is_locked :: "int \<Rightarrow> bool" where
  "is_locked state = (state = 1)"

definition is_unlocked :: "int \<Rightarrow> bool" where
  "is_unlocked state = (state = 0)"

section \<open>schedule_engine.py\<close>

definition parse_daily_limit :: "py \<Rightarrow> py_error + py" where
  "parse_daily_limit schedule_json =
     (case py_getitem schedule_json ''daily_limit'' of
        Inl e \<Rightarrow> Inl e
      | Inr daily_limit \<Rightarrow> py_getitem daily_limit ''max_unlocks'')"

definition parse_time_windows :: "py \<Rightarrow> py_error + py" where
  "parse_time_windows schedule_json = py_getitem schedule_json ''windows''"

section \<open>json.dumps and str.encode\<close>

text \<open>
  \<open>json.dumps(obj)\<close> with its default arguments: \<open>ensure_ascii=True\<close>, the separators
  \<open>', '\<close> and \<open>': '\<close>, no indentation. Every value of \<^typ>\<open>py\<close> is serialisable, so it
  raises nothing here. The output is ASCII, hence \<open>.encode()\<close> (UTF-8) gives one byte
  per character.
\<close>

definition hex_digit :: "nat \<Rightarrow> char" where
  "hex_digit n = (if n < 10 then char_of (48 + n) else char_of (87 + n))"

fun nat_repr :: "nat \<Rightarrow> string" where
  "nat_repr n =
     (if n < 10 then [char_of (48 + n)]
      else nat_repr (n div 10) @ [char_of (48 + n mod 10)])"

definition int_repr :: "int \<Rightarrow> string" where
  "int_repr i = (if i < 0 then CHR ''-'' # nat_repr (nat (- i)) else nat_repr (nat i))"

text \<open>
  The escapes of \<open>json.encoder.py_encode_basestring_ascii\<close>: the quote, the backslash
  and the five short escapes; a character from space to tilde stands for itself; any
  other one is written \<open>\u00xx\<close> with lowercase hexadecimal digits.
\<close>

definition escape_char :: "char \<Rightarrow> string" where
  "escape_char c =
     (if c = CHR 0x22 then [CHR 0x5C, CHR 0x22]
      else if c = CHR 0x5C then [CHR 0x5C, CHR 0x5C]
      else if c = CHR 0x0A then [CHR 0x5C, CHR ''n'']
      else if c = CHR 0x0D then [CHR 0x5C, CHR ''r'']
      else if c = CHR 0x09 then [CHR 0x5C, CHR ''t'']
      else if c = CHR 0x08 then [CHR 0x5C, CHR ''b'']
      else if c = CHR 0x0C then [CHR 0x5C, CHR ''f'']
      else if 32 \<le> (of_char c :: nat) \<and> (of_char c :: nat) \<le> 126 then [c]
      else [CHR 0x5C, CHR ''u'', CHR ''0'', CHR ''0'',
            hex_digit ((of_char c :: nat) div 16), hex_digit ((of_char c :: nat) mod 16)])"

definition json_str :: "string \<Rightarrow> string" where
  "json_str s = [CHR 0x22] @ concat (map escape_char s) @ [CHR 0x22]"

text \<open>\<open>sep.join(parts)\<close>.\<close>

fun join :: "string \<Rightarrow> string list \<Rightarrow> string" where
  "join sep [] = []"
| "join sep [x] = x"
| "join sep (x # y # ys) = x @ sep @ join sep (y # ys)"

fun json_dumps :: "py \<Rightarrow> string" where
  "json_dumps PNone = ''null''"
| "json_dumps (PBool b) = (if b then ''true'' else ''false'')"
| "json_dumps (PInt i) = int_repr i"
| "json_dumps (PStr s) = json_str s"
| "json_dumps (PList xs) = ''['' @ join '', '' (map json_dumps xs) @ '']''"
| "json_dumps (PDict d) =
     ''{'' @ join '', '' (map (\<lambda>kv. json_str (fst kv) @ '': '' @ json_dumps (snd kv)) d) @ ''}''"

definition encode :: "string \<Rightarrow> bytes" where
  "encode s = map (\<lambda>c. of_nat (of_char c)) s"

text \<open>The truth value of an object, as \<open>if obj:\<close> tests it.\<close>

fun truthy :: "py \<Rightarrow> bool" where
  "truthy PNone = False"
| "truthy (PBool b) = b"
| "truthy (PInt i) = (i \<noteq> 0)"
| "truthy (PStr s) = (s \<noteq> [])"
| "truthy (PList xs) = (xs \<noteq> [])"
| "truthy (PDict d) = (d \<noteq> [])"

section \<open>ble_wrapper_stub.py\<close>

text \<open>
  The attribute identifiers imported from \<open>ble_constants\<close>. That module is not among
  the repository's files, so the identifiers are a parameter of every handler.
\<close>

record ble_constants =
  CHAR_LOCK_STATE :: string
  CHAR_LOCK_COMMAND :: string
  CHAR_SCHEDULE :: string
  CHAR_TIMESYNC :: string
  CHAR_BATTERY :: string
  CHAR_NEXT_UNLOCK :: string
  CHAR_EVENT :: string

text \<open>
  The fields of \<open>KurbSimulator\<close> that the wrapper reads. The class itself
  (\<open>kurb_logic\<close>) is not among the repository's files; whatever else it holds (an
  unlock counter, a clock) lives in the record's extension.
\<close>

record sim_state =
  lock_state :: int
  battery :: int
  schedule :: py

text \<open>
  \<open>KurbBLEPeripheral\<close>: the simulator, the stored characteristic values, the connection
  flag (\<open>ble_server\<close> is \<open>None\<close> and never used), and the calls made to
  \<open>send_notification\<close> so far, oldest first.
\<close>

record 'm peripheral =
  sim :: "'m sim_state_scheme"
  char_values :: "(string \<times> bytes) list"
  device_connected :: bool
  notified :: "(string \<times> bytes) list"

text \<open>
  A handler returns its value or the exception it raised, and the object as it left it.
  The handlers' \<open>print\<close> calls write a log line and cannot fail on the values they
  format (a byte, a \<open>bytes\<close> object, a string); they are not part of the model.
\<close>

type_synonym ('m, 'a) handler = "'m peripheral \<Rightarrow> (py_error + 'a) \<times> 'm peripheral"

text \<open>
  \<open>send_notification(uuid, data)\<close> is the OS-specific method a backend overrides. Of the
  override only the outcome is modelled: \<open>transport uuid data\<close> is \<open>None\<close> when the send
  returns and the exception when it raises. The call is recorded either way.
\<close>

type_synonym transport = "string \<Rightarrow> bytes \<Rightarrow> py_error option"

definition send_notification :: "transport \<Rightarrow> string \<Rightarrow> bytes \<Rightarrow> ('m, unit) handler" where
  "send_notification transport uuid data self =
     (case transport uuid data of None \<Rightarrow> Inr () | Some e \<Rightarrow> Inl e,
      self\<lparr>notified := notified self @ [(uuid, data)]\<rparr>)"

text \<open>The method as the template has it: it prints the notification and raises.\<close>

definition template_transport :: transport where
  "template_transport uuid data = Some NotImplementedError"

text \<open>
  \<open>self.sim.on_write(uuid, data)\<close> belongs to the absent \<open>KurbSimulator\<close>: a parameter
  that maps the simulator's state to its outcome and its new state.
\<close>

type_synonym 'm sim_on_write =
  "string \<Rightarrow> bytes \<Rightarrow> 'm sim_state_scheme \<Rightarrow> (py_error + unit) \<times> 'm sim_state_scheme"

definition on_write_lock_command ::
  "ble_constants \<Rightarrow> 'm sim_on_write \<Rightarrow> transport \<Rightarrow> bytes \<Rightarrow> ('m, unit) handler" where
  "on_write_lock_command c sim_on_write transport data self =
     (case data of
        [] \<Rightarrow> (Inl IndexError, self)
      | cmd # rest \<Rightarrow>
          (case sim_on_write (CHAR_LOCK_COMMAND c) data (sim self) of
             (Inl e, sim') \<Rightarrow> (Inl e, self\<lparr>sim := sim'\<rparr>)
           | (Inr u, sim') \<Rightarrow>
               (case py_bytes1 (lock_state sim') of
                  Inl e \<Rightarrow> (Inl e, self\<lparr>sim := sim'\<rparr>)
                | Inr payload \<Rightarrow>
                    send_notification transport (CHAR_LOCK_STATE c) payload
                      (self\<lparr>sim := sim'\<rparr>))))"

definition on_write_schedule ::
  "ble_constants \<Rightarrow> 'm sim_on_write \<Rightarrow> bytes \<Rightarrow> ('m, unit) handler" where
  "on_write_schedule c sim_on_write data self =
     (case sim_on_write (CHAR_SCHEDULE c) data (sim self) of
        (r, sim') \<Rightarrow> (r, self\<lparr>sim := sim'\<rparr>))"

definition on_write_timesync ::
  "ble_constants \<Rightarrow> 'm sim_on_write \<Rightarrow> bytes \<Rightarrow> ('m, unit) handler" where
  "on_write_timesync c sim_on_write data self =
     (case sim_on_write (CHAR_TIMESYNC c) data (sim self) of
        (r, sim') \<Rightarrow> (r, self\<lparr>sim := sim'\<rparr>))"

definition on_logic_event :: "ble_constants \<Rightarrow> transport \<Rightarrow> bytes \<Rightarrow> ('m, unit) handler" where
  "on_logic_event c transport event_code self =
     (case send_notification transport (CHAR_EVENT c) event_code self of
        (Inl e, self') \<Rightarrow> (Inl e, self')
      | (Inr u, self') \<Rightarrow>
          (if event_code \<in> set [[0x01], [0x02], [0x09]] then
             (case py_bytes1 (lock_state (sim self')) of
                Inl e \<Rightarrow> (Inl e, self')
              | Inr payload \<Rightarrow> send_notification transport (CHAR_LOCK_STATE c) payload self')
           else (Inr (), self')))"

definition on_read :: "ble_constants \<Rightarrow> string \<Rightarrow> ('m, bytes) handler" where
  "on_read c uuid self =
     (if uuid = CHAR_LOCK_STATE c then (py_bytes1 (lock_state (sim self)), self)
      else if uuid = CHAR_BATTERY c then (py_bytes1 (battery (sim self)), self)
      else if uuid = CHAR_NEXT_UNLOCK c then (Inr [0x00, 0x00, 0x00, 0x00], self)
      else if uuid = CHAR_SCHEDULE c then
        (if truthy (schedule (sim self)) then
           (let raw = encode (json_dumps (schedule (sim self)));
                length_raw = int (length raw)
            in case py_bytes1 length_raw of
                 Inl e \<Rightarrow> (Inl e, self)
               | Inr prefix \<Rightarrow> (Inr (prefix @ raw), self))
         else (py_bytes1 0x00, self))
      else (py_bytes1 0x00, self))"

section \<open>Sample inputs\<close>

text \<open>
  Concrete inputs at which the handlers are evaluated. The identifiers stand in for the
  UUIDs of the absent \<open>ble_constants\<close>; they are pairwise distinct.
\<close>

definition sample_constants :: ble_constants where
  "sample_constants =
     \<lparr>CHAR_LOCK_STATE = ''lock-state'', CHAR_LOCK_COMMAND = ''lock-command'',
      CHAR_SCHEDULE = ''schedule'', CHAR_TIMESYNC = ''timesync'',
      CHAR_BATTERY = ''battery'', CHAR_NEXT_UNLOCK = ''next-unlock'',
      CHAR_EVENT = ''event''\<rparr>"

text \<open>A locked device (with the helpers' encoding, 1) at 80 percent, holding schedule \<open>s\<close>.\<close>

definition sample_peripheral :: "py \<Rightarrow> unit peripheral" where
  "sample_peripheral s =
     \<lparr>sim = \<lparr>lock_state = 1, battery = 80, schedule = s\<rparr>,
      char_values = [], device_connected = False, notified = []\<rparr>"

text \<open>A backend whose send always returns, and a simulator that accepts every write.\<close>

definition delivering_transport :: transport where
  "delivering_transport uuid data = None"

definition accepting_sim :: "unit sim_on_write" where
  "accepting_sim uuid data s = (Inr (), s)"

text \<open>One unlock a day, one window from 09:00 to 17:00: 84 bytes of JSON.\<close>

definition short_schedule :: py where
  "short_schedule =
     PDict [(''daily_limit'', PDict [(''max_unlocks'', PInt 1)]),
            (''windows'', PList [PDict [(''start'', PStr ''09:00''), (''end'', PStr ''17:00'')]])]"

text \<open>Three unlocks a day and seven one-hour windows: 300 bytes of JSON.\<close>

definition long_schedule :: py where
  "long_schedule =
     PDict [(''daily_limit'', PDict [(''max_unlocks'', PInt 3)]),
            (''windows'',
             PList [PDict [(''start'', PStr ''06:00''), (''end'', PStr ''07:00'')],
                    PDict [(''start'', PStr ''08:00''), (''end'', PStr ''09:00'')],
                    PDict [(''start'', PStr ''10:00''), (''end'', PStr ''11:00'')],
                    PDict [(''start'', PStr ''12:00''), (''end'', PStr ''13:00'')],
                    PDict [(''start'', PStr ''14:00''), (''end'', PStr ''15:00'')],
                    PDict [(''start'', PStr ''16:00''), (''end'', PStr ''17:00'')],
                    PDict [(''start'', PStr ''18:00''), (''end'', PStr ''19:00'')]])]"

section \<open>The battery classifier\<close>

text \<open>
  C3. On 0..100 \<open>classify_battery\<close> returns exactly one of the four tiers, by the
  inclusive ascending boundaries: emergency exactly up to 3, critical exactly from 4 to
  10, low exactly from 11 to 20, normal exactly above 20. The function is pure and total.
\<close>

theorem classify_battery_tiers:
  assumes "0 \<le> percent" and "percent \<le> 100"
  shows "(classify_battery percent = ''emergency'' \<longleftrightarrow> percent \<le> 3) \<and>
         (classify_battery percent = ''critical'' \<longleftrightarrow> 3 < percent \<and> percent \<le> 10) \<and>
         (classify_battery percent = ''low'' \<longleftrightarrow> 10 < percent \<and> percent \<le> 20) \<and>
         (classify_battery percent = ''normal'' \<longleftrightarrow> 20 < percent) \<and>
         classify_battery percent \<in> {''emergency'', ''critical'', ''low'', ''normal''}"
  by (simp add: classify_battery_def)

theorem classify_battery_tiers_witness:
  "(0::int) \<le> 7 \<and> (7::int) \<le> 100 \<and> classify_battery 7 = ''critical'' \<and>
   classify_battery 7 \<noteq> ''emergency'' \<and> classify_battery 7 \<noteq> ''low'' \<and>
   classify_battery 7 \<noteq> ''normal''"
  using classify_battery_tiers [of 7] by simp

text \<open>
  C4, as stated: the spot values include \<open>classify(4) = Low\<close>. The code answers critical
  at 4, since 4 is above 3 and at most 10.
\<close>

theorem classify_battery_4_counterexample: "classify_battery 4 \<noteq> ''low''"
  by (simp add: classify_battery_def)

text \<open>
  C4, amended: the boundary spot values are 0 and 3 emergency, 4 and 10 critical, 11 and
  20 low, 21 normal.
\<close>

theorem classify_battery_spot_values:
  "classify_battery 3 = ''emergency'' \<and> classify_battery 4 = ''critical'' \<and>
   classify_battery 10 = ''critical'' \<and> classify_battery 11 = ''low'' \<and>
   classify_battery 20 = ''low'' \<and> classify_battery 21 = ''normal'' \<and>
   classify_battery 0 = ''emergency''"
  by (simp add: classify_battery_def)

text \<open>
  C9. \<open>classify_battery\<close> is defined on every integer and neither clamps nor checks its
  argument: below 0 it answers emergency, above 100 it answers normal.
\<close>

theorem classify_battery_out_of_range:
  "(percent < 0 \<longrightarrow> classify_battery percent = ''emergency'') \<and>
   (100 < percent \<longrightarrow> classify_battery percent = ''normal'')"
  by (simp add: classify_battery_def)

theorem classify_battery_out_of_range_witness:
  "(-5::int) < 0 \<and> classify_battery (-5) = ''emergency'' \<and>
   (100::int) < 250 \<and> classify_battery 250 = ''normal''"
  using classify_battery_out_of_range [of "-5"] classify_battery_out_of_range [of 250]
  by simp

section \<open>The lock-state helpers\<close>

text \<open>
  C2, as stated: with 0 for Locked, \<open>is_locked(state)\<close> holds exactly when \<open>state = 0\<close>.
  At \<open>state = 0\<close> the helper answers \<open>False\<close>.
\<close>

theorem is_locked_zero_counterexample: "\<not> (is_locked 0 \<longleftrightarrow> (0::int) = 0)"
  by (simp add: is_locked_def)

text \<open>
  C2, amended: the helpers take 1 for Locked and 0 for Unlocked: \<open>is_locked(state)\<close>
  holds exactly when \<open>state = 1\<close>, and \<open>is_unlocked(state)\<close> exactly when \<open>state = 0\<close>.
\<close>

theorem lock_helpers_encoding:
  "(is_locked state \<longleftrightarrow> state = 1) \<and> (is_unlocked state \<longleftrightarrow> state = 0)"
  by (simp add: is_locked_def is_unlocked_def)

section \<open>The schedule parsers\<close>

text \<open>
  C10. The parsers validate nothing. For a schedule dictionary without the key
  \<open>daily_limit\<close>, or whose \<open>daily_limit\<close> is a dictionary without \<open>max_unlocks\<close>,
  \<open>parse_daily_limit\<close> raises \<open>KeyError\<close>; without the key \<open>windows\<close>,
  \<open>parse_time_windows\<close> raises \<open>KeyError\<close>; with the keys present each returns the
  stored value itself.
\<close>

theorem parse_schedule_keys:
  "(map_of d ''daily_limit'' = None \<longrightarrow> parse_daily_limit (PDict d) = Inl KeyError) \<and>
   (map_of d ''daily_limit'' = Some (PDict l) \<and> map_of l ''max_unlocks'' = None \<longrightarrow>
      parse_daily_limit (PDict d) = Inl KeyError) \<and>
   (map_of d ''windows'' = None \<longrightarrow> parse_time_windows (PDict d) = Inl KeyError) \<and>
   (map_of d ''daily_limit'' = Some (PDict l) \<and> map_of l ''max_unlocks'' = Some v \<longrightarrow>
      parse_daily_limit (PDict d) = Inr v) \<and>
   (map_of d ''windows'' = Some w \<longrightarrow> parse_time_windows (PDict d) = Inr w)"
  by (simp add: parse_daily_limit_def parse_time_windows_def)

theorem parse_schedule_keys_witness:
  "parse_daily_limit (PDict [(''windows'', PList [])]) = Inl KeyError \<and>
   parse_daily_limit (PDict [(''daily_limit'', PDict [(''max'', PInt 2)])]) = Inl KeyError \<and>
   parse_time_windows (PDict [(''daily_limit'', PDict [(''max_unlocks'', PInt 2)])]) =
     Inl KeyError \<and>
   parse_daily_limit short_schedule = Inr (PInt 1) \<and>
   parse_time_windows short_schedule =
     Inr (PList [PDict [(''start'', PStr ''09:00''), (''end'', PStr ''17:00'')]])"
  using
    parse_schedule_keys [of "[(''windows'', PList [])]"]
    parse_schedule_keys [of "[(''daily_limit'', PDict [(''max'', PInt 2)])]"
      "[(''max'', PInt 2)]"]
    parse_schedule_keys [of "[(''daily_limit'', PDict [(''max_unlocks'', PInt 2)])]"]
    parse_schedule_keys [of
      "[(''daily_limit'', PDict [(''max_unlocks'', PInt 1)]),
        (''windows'', PList [PDict [(''start'', PStr ''09:00''), (''end'', PStr ''17:00'')]])]"
      "[(''max_unlocks'', PInt 1)]" "PInt 1"
      "PList [PDict [(''start'', PStr ''09:00''), (''end'', PStr ''17:00'')]]"]
  by (simp add: short_schedule_def)

section \<open>Writes to the lock-command attribute\<close>

text \<open>
  C1, as stated: a zero-length payload written to the lock-command attribute propagates
  no fault to the caller. The handler reads \<open>data[0]\<close> first, so the write raises
  \<open>IndexError\<close>, and no handler of the wrapper catches it.
\<close>

theorem on_write_lock_command_empty_counterexample:
  "fst (on_write_lock_command sample_constants accepting_sim delivering_transport []
          (sample_peripheral short_schedule)) = Inl IndexError"
  by (simp add: on_write_lock_command_def)

text \<open>
  C1, amended: a zero-length payload written to the lock-command attribute leaves the
  peripheral as it was (the simulator's lock state, battery level and every other field,
  an unlock counter included) and attempts no notification: neither the simulator nor
  the transport is called. The write fails with \<open>IndexError\<close>, which reaches the caller.
\<close>

theorem on_write_lock_command_empty:
  "on_write_lock_command c sim_on_write transport [] self = (Inl IndexError, self)"
  by (simp add: on_write_lock_command_def)

text \<open>
  The handler has no decoding step: any payload of at least one byte goes to the
  simulator under the lock-command identifier, and once the simulator returns, the lock
  state is notified whatever the command byte was.
\<close>

lemma on_write_lock_command_forwards:
  assumes "data \<noteq> []"
    and "sim_on_write (CHAR_LOCK_COMMAND c) data (sim self) = (Inr (), sim')"
    and "0 \<le> lock_state sim'" and "lock_state sim' < 256"
  shows "snd (on_write_lock_command c sim_on_write transport data self) =
           self\<lparr>sim := sim',
                notified := notified self @
                  [(CHAR_LOCK_STATE c, [word_of_int (lock_state sim')])]\<rparr>"
  using assms
  by (cases data)
     (simp_all add: on_write_lock_command_def py_bytes1_def send_notification_def)

section \<open>Notifications for logic events\<close>

text \<open>
  C5, as stated: exactly one notification is attempted for every event. For the event
  code \<open>0x01\<close>, with a backend whose send returns, two are attempted: the event attribute
  first, the lock-state attribute second.
\<close>

theorem on_logic_event_two_notifications_counterexample:
  "notified (snd (on_logic_event sample_constants delivering_transport [0x01]
                    (sample_peripheral short_schedule))) =
     [(''event'', [0x01]), (''lock-state'', [0x01])]"
  by (simp add: on_logic_event_def send_notification_def delivering_transport_def
      sample_constants_def sample_peripheral_def py_bytes1_def)

text \<open>
  C5, amended: for every event the bridge attempts one notification on the event
  attribute, carrying the event code. When the code is \<open>0x01\<close>, \<open>0x02\<close> or \<open>0x09\<close>, that
  send returned and the lock state fits a byte, it then attempts a second one on the
  lock-state attribute, carrying the lock-state byte. The attempts of a call come after
  all earlier attempts, so notifications follow the order in which the events are handled.
\<close>

theorem on_logic_event_notifications:
  "notified (snd (on_logic_event c transport event_code self)) =
     notified self @ [(CHAR_EVENT c, event_code)] @
       (if transport (CHAR_EVENT c) event_code = None \<and>
           event_code \<in> {[0x01], [0x02], [0x09]} \<and>
           0 \<le> lock_state (sim self) \<and> lock_state (sim self) < 256
        then [(CHAR_LOCK_STATE c, [word_of_int (lock_state (sim self))])]
        else [])"
  by (simp add: on_logic_event_def send_notification_def py_bytes1_def
      split: option.split)

text \<open>
  With the template's own \<open>send_notification\<close>, which raises, the first attempt is the
  only one and the exception leaves the handler.
\<close>

lemma on_logic_event_template:
  "on_logic_event c template_transport event_code self =
     (Inl NotImplementedError,
      self\<lparr>notified := notified self @ [(CHAR_EVENT c, event_code)]\<rparr>)"
  by (simp add: on_logic_event_def send_notification_def template_transport_def)

section \<open>Reads\<close>

text \<open>
  C6 at a schedule whose JSON text is longer than 255 bytes: \<open>bytes([length])\<close> raises
  \<open>ValueError\<close>, so the read returns no payload.
\<close>

theorem on_read_long_schedule:
  "on_read sample_constants ''schedule'' (sample_peripheral long_schedule) =
     (Inl ValueError, sample_peripheral long_schedule)"
  by (simp add: on_read_def sample_constants_def sample_peripheral_def long_schedule_def
      json_str_def escape_char_def int_repr_def encode_def py_bytes1_def)

text \<open>
  Up to 255 bytes the read of the schedule attribute is the length byte followed by the
  JSON text; an unset (falsy) schedule reads as the single byte \<open>0x00\<close>.
\<close>

lemma on_read_schedule_set:
  assumes "CHAR_SCHEDULE c \<notin> {CHAR_LOCK_STATE c, CHAR_BATTERY c, CHAR_NEXT_UNLOCK c}"
    and "truthy (schedule (sim self))"
    and "length (json_dumps (schedule (sim self))) < 256"
  shows "on_read c (CHAR_SCHEDULE c) self =
           (Inr (of_nat (length (json_dumps (schedule (sim self)))) #
                 encode (json_dumps (schedule (sim self)))), self)"
  using assms by (simp add: on_read_def py_bytes1_def encode_def Let_def)

lemma on_read_schedule_unset:
  assumes "CHAR_SCHEDULE c \<notin> {CHAR_LOCK_STATE c, CHAR_BATTERY c, CHAR_NEXT_UNLOCK c}"
    and "\<not> truthy (schedule (sim self))"
  shows "on_read c (CHAR_SCHEDULE c) self = (Inr [0x00], self)"
  using assms by (simp add: on_read_def py_bytes1_def)

lemma on_read_short_schedule:
  "fst (on_read sample_constants ''schedule'' (sample_peripheral short_schedule)) =
     Inr (84 # encode (json_dumps short_schedule))"
  by (simp add: on_read_def sample_constants_def sample_peripheral_def short_schedule_def
      json_str_def escape_char_def int_repr_def encode_def py_bytes1_def)

text \<open>
  C7. A read of an identifier that is none of the four readable attributes (lock state,
  battery, next unlock, schedule) returns the single byte \<open>0x00\<close> and raises nothing.
\<close>

theorem on_read_unrecognized:
  assumes "uuid \<notin> {CHAR_LOCK_STATE c, CHAR_BATTERY c, CHAR_NEXT_UNLOCK c, CHAR_SCHEDULE c}"
  shows "on_read c uuid self = (Inr [0x00], self)"
  using assms by (simp add: on_read_def py_bytes1_def)

theorem on_read_unrecognized_witness:
  "''no-such-attribute'' \<notin>
     {CHAR_LOCK_STATE sample_constants, CHAR_BATTERY sample_constants,
      CHAR_NEXT_UNLOCK sample_constants, CHAR_SCHEDULE sample_constants} \<and>
   on_read sample_constants ''no-such-attribute'' (sample_peripheral long_schedule) =
     (Inr [0x00], sample_peripheral long_schedule)"
  using on_read_unrecognized [of "''no-such-attribute''" sample_constants
      "sample_peripheral long_schedule"]
  by (simp add: sample_constants_def)

text \<open>
  C8. A read, of any identifier and whether it returns or raises, leaves the lock state,
  the battery level and the schedule as they were; indeed it leaves the whole object
  as it was.
\<close>

theorem on_read_frame:
  "lock_state (sim (snd (on_read c uuid self))) = lock_state (sim self) \<and>
   battery (sim (snd (on_read c uuid self))) = battery (sim self) \<and>
   schedule (sim (snd (on_read c uuid self))) = schedule (sim self) \<and>
   snd (on_read c uuid self) = self"
  by (simp add: on_read_def Let_def split: sum.split)

end
